theory Spec2Isabelle
  imports Main
begin

section \<open>Data model\<close>

text \<open>
  The word commands of the editor (the classes \<^verbatim>\<open>MoveWordCommand\<close> and
  \<^verbatim>\<open>DeleteWordCommand\<close> and their subclasses) work on positions, ranges and
  selections of a line-oriented text model. Line numbers and columns are
  1-based naturals; text is a sequence of UTF-16 code units, each a natural number.
\<close>

type_synonym codeUnit = nat

record Position =
  lineNumber :: nat
  column :: nat

record Range =
  startLineNumber :: nat
  startColumn :: nat
  endLineNumber :: nat
  endColumn :: nat

text \<open>
  A selection has an anchor (\<open>selectionStart\<close>) and an active end (\<open>position\<close>);
  the constructor call \<^verbatim>\<open>new Selection(a, b, c, d)\<close> of the commands fills the four
  fields in this order.
\<close>

record Selection =
  selectionStartLineNumber :: nat
  selectionStartColumn :: nat
  positionLineNumber :: nat
  positionColumn :: nat

datatype WordNavigationType = WordStart | WordStartFast | WordEnd | WordAccessibility

datatype CharacterClass = Regular | Whitespace | WordSeparator

text \<open>
  Modelled from the spec: the text model (\<^verbatim>\<open>ITextModel\<close>) is an imported interface;
  section 6 gives its accessors, "lineCount", "lineContent(lineNumber)" and
  "lineMaxColumn(lineNumber) (1 + code-unit length)". The model is the list of its
  lines. A line number outside the buffer is a contract violation of the caller
  (section 7); the accessors stay total by reading such a line as the empty line.
\<close>

record ITextModel =
  lines :: "codeUnit list list"

definition getLineCount :: "ITextModel \<Rightarrow> nat" where
  "getLineCount m = length (lines m)"

definition getLineContent :: "ITextModel \<Rightarrow> nat \<Rightarrow> codeUnit list" where
  "getLineContent m n =
     (if 1 \<le> n \<and> n \<le> length (lines m) then lines m ! (n - 1) else [])"

definition getLineMaxColumn :: "ITextModel \<Rightarrow> nat \<Rightarrow> nat" where
  "getLineMaxColumn m n = length (getLineContent m n) + 1"

text \<open>An ASCII literal as code units, for concrete buffers.\<close>

definition codeUnits :: "string \<Rightarrow> codeUnit list" where
  "codeUnits s = map of_char s"

subsection \<open>Code units and code points\<close>

text \<open>
  Modelled from the spec: the decoding of code units belongs to the classifier and the
  word operations, which are imported and not among the sources. Columns count UTF-16
  code units (section 3) while the classifier works "by code point" (section 2). A
  high surrogate followed by a low surrogate is one code point; any other code unit is
  a code point by itself.
\<close>

definition isHighSurrogate :: "codeUnit \<Rightarrow> bool" where
  "isHighSurrogate u \<longleftrightarrow> 55296 \<le> u \<and> u \<le> 56319"

definition isLowSurrogate :: "codeUnit \<Rightarrow> bool" where
  "isLowSurrogate u \<longleftrightarrow> 56320 \<le> u \<and> u \<le> 57343"

definition computeCodePoint :: "codeUnit \<Rightarrow> codeUnit \<Rightarrow> nat" where
  "computeCodePoint hi lo = 65536 + (hi - 55296) * 1024 + (lo - 56320)"

fun codePointsOf :: "codeUnit list \<Rightarrow> nat list" where
  "codePointsOf [] = []"
| "codePointsOf [u] = [u]"
| "codePointsOf (u # v # rest) =
     (if isHighSurrogate u \<and> isLowSurrogate v
      then computeCodePoint u v # codePointsOf rest
      else u # codePointsOf (v # rest))"

subsection \<open>The word-character classifier\<close>

text \<open>
  Modelled from the spec: the class \<^verbatim>\<open>WordCharacterClassifier\<close> and the function
  \<^verbatim>\<open>getMapForWordSeparators\<close> are imported by the commands from
  \<^verbatim>\<open>wordCharacterClassifier\<close>, which is not among the sources. The spec gives the
  contract (section 4.1): Whitespace is a space, a tab or any code point with the
  Unicode White_Space property; WordSeparator is a character of the configured
  separator string; Regular is everything else.
\<close>

definition isUnicodeWhitespace :: "nat \<Rightarrow> bool" where
  "isUnicodeWhitespace ch \<longleftrightarrow>
     (9 \<le> ch \<and> ch \<le> 13) \<or> ch = 32 \<or> ch = 133 \<or> ch = 160 \<or> ch = 5760 \<or>
     (8192 \<le> ch \<and> ch \<le> 8202) \<or> ch = 8232 \<or> ch = 8233 \<or> ch = 8239 \<or>
     ch = 8287 \<or> ch = 12288"

definition classifyDirect :: "nat list \<Rightarrow> nat \<Rightarrow> CharacterClass" where
  "classifyDirect separators ch =
     (if ch = 32 \<or> ch = 9 \<or> isUnicodeWhitespace ch then Whitespace
      else if ch \<in> set separators then WordSeparator
      else Regular)"

text \<open>
  Modelled from the spec: "ASCII range (0-255) should be precomputed into a lookup
  table for O(1) classification; characters above that range fall back to a direct
  computation". The classifier is built from the raw separator string, whose
  characters are its code points.
\<close>

record WordCharacterClassifier =
  asciiMap :: "CharacterClass list"
  separatorChars :: "nat list"

definition new_WordCharacterClassifier :: "codeUnit list \<Rightarrow> WordCharacterClassifier" where
  "new_WordCharacterClassifier wordSeparators =
     \<lparr> asciiMap = map (classifyDirect (codePointsOf wordSeparators)) [0..<256],
       separatorChars = codePointsOf wordSeparators \<rparr>"

definition classify :: "WordCharacterClassifier \<Rightarrow> nat \<Rightarrow> CharacterClass" where
  "classify k ch =
     (if ch < 256 then asciiMap k ! ch else classifyDirect (separatorChars k) ch)"

text \<open>
  Modelled from the spec: the classifier is "constructed once per distinct
  separator-string value, cached keyed by that string" (section 3). The memo table is
  passed explicitly and returned updated.
\<close>

type_synonym ClassifierCache = "codeUnit list \<rightharpoonup> WordCharacterClassifier"

definition cached_getMapForWordSeparators ::
  "ClassifierCache \<Rightarrow> codeUnit list \<Rightarrow> WordCharacterClassifier \<times> ClassifierCache" where
  "cached_getMapForWordSeparators cache input =
     (case cache input of
        Some k \<Rightarrow> (k, cache)
      | None \<Rightarrow> (let k = new_WordCharacterClassifier input in (k, cache(input \<mapsto> k))))"

text \<open>The memo table after a history of requests, starting from the empty table.\<close>

definition cacheAfter :: "codeUnit list list \<Rightarrow> ClassifierCache" where
  "cacheAfter history =
     fold (\<lambda>input cache. snd (cached_getMapForWordSeparators cache input)) history Map.empty"

subsection \<open>Selections as ranges\<close>

text \<open>
  Modelled from the spec: the classes \<^verbatim>\<open>Range\<close> and \<^verbatim>\<open>Selection\<close> are imported,
  not among the sources. A selection is collapsed when anchor and active end coincide;
  seen as a range it is "normalized so start <= end in document order" (section 3).
\<close>

definition Selection_isEmpty :: "Selection \<Rightarrow> bool" where
  "Selection_isEmpty s \<longleftrightarrow>
     selectionStartLineNumber s = positionLineNumber s \<and>
     selectionStartColumn s = positionColumn s"

definition Selection_range :: "Selection \<Rightarrow> Range" where
  "Selection_range s =
     (if selectionStartLineNumber s < positionLineNumber s \<or>
         (selectionStartLineNumber s = positionLineNumber s \<and>
          selectionStartColumn s \<le> positionColumn s)
      then \<lparr> startLineNumber = selectionStartLineNumber s,
             startColumn = selectionStartColumn s,
             endLineNumber = positionLineNumber s,
             endColumn = positionColumn s \<rparr>
      else \<lparr> startLineNumber = positionLineNumber s,
             startColumn = positionColumn s,
             endLineNumber = selectionStartLineNumber s,
             endColumn = selectionStartColumn s \<rparr>)"

definition Range_fromPositions :: "Position \<Rightarrow> Position \<Rightarrow> Range" where
  "Range_fromPositions a b =
     \<lparr> startLineNumber = lineNumber a, startColumn = column a,
       endLineNumber = lineNumber b, endColumn = column b \<rparr>"

definition Selection_getPosition :: "Selection \<Rightarrow> Position" where
  "Selection_getPosition s =
     \<lparr> lineNumber = positionLineNumber s, column = positionColumn s \<rparr>"

section \<open>The word operations the commands call\<close>

text \<open>
  Modelled from the spec: the class \<^verbatim>\<open>WordOperations\<close> (\<^verbatim>\<open>moveWordLeft\<close>,
  \<^verbatim>\<open>moveWordRight\<close>, \<^verbatim>\<open>deleteWordLeft\<close>, \<^verbatim>\<open>deleteWordRight\<close>) is imported by
  the commands from \<^verbatim>\<open>cursorWordOperations\<close>, which is not among the sources. The
  definitions of this section follow sections 4.2 and 4.3 of the spec; each names the
  sentence it renders.
\<close>

subsection \<open>Character classes of a line\<close>

text \<open>
  Modelled from the spec: "Every Unicode code point in a line maps to exactly one
  class" and a scan must "never stop in the middle of a surrogate pair". Both code
  units of a surrogate pair get the class of the pair's code point, so no class changes
  inside the pair; the list of classes has one entry per column.
\<close>

fun lineClasses :: "WordCharacterClassifier \<Rightarrow> codeUnit list \<Rightarrow> CharacterClass list" where
  "lineClasses k [] = []"
| "lineClasses k [u] = [classify k u]"
| "lineClasses k (u # v # rest) =
     (if isHighSurrogate u \<and> isLowSurrogate v
      then classify k (computeCodePoint u v) # classify k (computeCodePoint u v) #
           lineClasses k rest
      else classify k u # lineClasses k (v # rest))"

text \<open>
  Modelled from the spec: a position has a "column >= 1, 1-based" (section 3).
  \<open>classAt cs b\<close> is the class of the character at column \<open>b\<close>, and \<open>None\<close>
  outside the line: before column 1 (the line start) and from the max column on (the
  line end).
\<close>

definition classAt :: "CharacterClass list \<Rightarrow> nat \<Rightarrow> CharacterClass option" where
  "classAt cs b = (if 1 \<le> b \<and> b \<le> length cs then Some (cs ! (b - 1)) else None)"

subsection \<open>Boundaries per navigation type\<close>

text \<open>
  Modelled from the spec (section 4.2).
  WordStart: "a boundary is the first character of a run of Regular characters
  immediately preceded by Whitespace or WordSeparator (or line start)".
  WordEnd: "the position immediately after the last character of a Regular run before
  a transition out to Whitespace/WordSeparator (or line end)".
  WordStartFast: start of word, "stopping at separator-run boundaries too, not only
  Regular-run boundaries", and it "skips purely Whitespace runs silently".
  WordAccessibility has no boundary rule of its own in the spec: its one sentence is
  the separator override, which the commands apply before they call; it is scanned by
  the start-of-word rule.
\<close>

definition isWordStart :: "CharacterClass list \<Rightarrow> nat \<Rightarrow> bool" where
  "isWordStart cs b \<longleftrightarrow> classAt cs b = Some Regular \<and> classAt cs (b - 1) \<noteq> Some Regular"

definition isWordEnd :: "CharacterClass list \<Rightarrow> nat \<Rightarrow> bool" where
  "isWordEnd cs b \<longleftrightarrow> 1 \<le> b \<and> classAt cs (b - 1) = Some Regular \<and> classAt cs b \<noteq> Some Regular"

definition isWordStartFast :: "CharacterClass list \<Rightarrow> nat \<Rightarrow> bool" where
  "isWordStartFast cs b \<longleftrightarrow>
     (classAt cs b = Some Regular \<or> classAt cs b = Some WordSeparator) \<and>
     classAt cs (b - 1) \<noteq> classAt cs b"

fun isBoundary :: "WordNavigationType \<Rightarrow> CharacterClass list \<Rightarrow> nat \<Rightarrow> bool" where
  "isBoundary WordStart cs b = isWordStart cs b"
| "isBoundary WordEnd cs b = isWordEnd cs b"
| "isBoundary WordStartFast cs b = isWordStartFast cs b"
| "isBoundary WordAccessibility cs b = isWordStart cs b"

subsection \<open>Scanning a line\<close>

text \<open>
  Modelled from the spec: "word boundaries are found by scanning the current line's
  character classes from the position". \<open>scanLeft isB b\<close> is the nearest boundary at
  or left of column \<open>b\<close>, column 1 when the line start is reached; \<open>scanRight isB
  maxColumn b\<close> is the nearest boundary at or right of column \<open>b\<close>, the line's max
  column when the line end is reached.
\<close>

fun scanLeft :: "(nat \<Rightarrow> bool) \<Rightarrow> nat \<Rightarrow> nat" where
  "scanLeft isB 0 = 1"
| "scanLeft isB (Suc b) = (if isB (Suc b) then Suc b else scanLeft isB b)"

function scanRight :: "(nat \<Rightarrow> bool) \<Rightarrow> nat \<Rightarrow> nat \<Rightarrow> nat" where
  "scanRight isB maxColumn b =
     (if maxColumn \<le> b then maxColumn
      else if isB b then b
      else scanRight isB maxColumn (Suc b))"
  by pat_completeness auto
termination
  by (relation "measure (\<lambda>(isB, maxColumn, b). maxColumn - b)") auto

subsection \<open>Moving by words\<close>

text \<open>
  Modelled from the spec: "left movement that reaches column 1 continues at the end of
  the previous line (treating the line break as a Whitespace-class transition)" and
  "At document start, leftward movement that cannot continue returns the original
  position unchanged". A cursor at column 1 of a later line is taken to the max column
  of the line above and the scan starts there; any other cursor scans strictly left of
  itself.
\<close>

definition WordOperations_moveWordLeft ::
  "WordCharacterClassifier \<Rightarrow> ITextModel \<Rightarrow> Position \<Rightarrow> WordNavigationType \<Rightarrow> Position" where
  "WordOperations_moveWordLeft k m p nav =
     (let movedUp = (column p = 1 \<and> 1 < lineNumber p);
          l = (if movedUp then lineNumber p - 1 else lineNumber p);
          b = (if movedUp then getLineMaxColumn m l else column p - 1);
          cs = lineClasses k (getLineContent m l)
      in \<lparr> lineNumber = l, column = scanLeft (isBoundary nav cs) b \<rparr>)"

text \<open>
  Modelled from the spec: "right movement that reaches the line's max column continues
  at column 1 of the next line" and "At document end, rightward movement clamps to the
  last line's max column". A cursor at the max column of a line that is not the last
  is taken to column 1 of the line below and the scan starts there; any other cursor
  scans strictly right of itself.
\<close>

definition WordOperations_moveWordRight ::
  "WordCharacterClassifier \<Rightarrow> ITextModel \<Rightarrow> Position \<Rightarrow> WordNavigationType \<Rightarrow> Position" where
  "WordOperations_moveWordRight k m p nav =
     (let movedDown = (column p = getLineMaxColumn m (lineNumber p) \<and>
                       lineNumber p < getLineCount m);
          l = (if movedDown then lineNumber p + 1 else lineNumber p);
          b = (if movedDown then 1 else column p + 1);
          cs = lineClasses k (getLineContent m l)
      in \<lparr> lineNumber = l,
           column = scanRight (isBoundary nav cs) (getLineMaxColumn m l) b \<rparr>)"

subsection \<open>Deleting by words\<close>

text \<open>
  Modelled from the spec: the interface \<^verbatim>\<open>DeleteWordContext\<close> is imported and its
  field types are declared outside the sources. It has the nine fields the delete
  commands fill in \<^verbatim>\<open>DeleteWordCommand.runEditorCommand\<close>; section 6 of the spec
  gives "autoClosingDelete: enabled|disabled|auto", an auto-closing-bracket and an
  auto-closing-quote configuration that can be disabled, the registered (opening,
  closing) pairs, and "autoClosedCharacters: set of positions the caller has recorded
  as auto-inserted".
\<close>

datatype AutoClosingDelete = DeleteEnabled | DeleteDisabled | DeleteAuto

datatype AutoClosingStrategy = AutoClosingOn | AutoClosingDisabled

record DeleteWordContext =
  wordSeparators :: WordCharacterClassifier
  model :: ITextModel
  selection :: Selection
  whitespaceHeuristics :: bool
  autoClosingDelete :: AutoClosingDelete
  autoClosingBrackets :: AutoClosingStrategy
  autoClosingQuotes :: AutoClosingStrategy
  autoClosingPairs :: "(codeUnit \<times> codeUnit) list"
  autoClosedCharacters :: "Position list"

text \<open>
  Modelled from the spec: "when deleting left and the character immediately left of
  the cursor is an opening character of a registered auto-closing pair, and the
  character immediately right of the cursor is that pair's matching closing character,
  AND that closing character is recorded as having been auto-inserted [...] This
  widening applies only when the autoClosingDelete configuration enables it and the
  relevant auto-closing-bracket/quote configuration is not disabled." The relevant
  configuration is the one for quotes when the opening character is a quote (double,
  single or backtick), the one for brackets otherwise.
\<close>

definition isQuote :: "codeUnit \<Rightarrow> bool" where
  "isQuote ch \<longleftrightarrow> ch = 34 \<or> ch = 39 \<or> ch = 96"

definition isAutoClosingPairDelete :: "DeleteWordContext \<Rightarrow> bool" where
  "isAutoClosingPairDelete ctx \<longleftrightarrow>
     (let l = positionLineNumber (selection ctx);
          c = positionColumn (selection ctx);
          content = getLineContent (model ctx) l
      in autoClosingDelete ctx \<noteq> DeleteDisabled \<and>
         2 \<le> c \<and> c \<le> length content \<and>
         (content ! (c - 2), content ! (c - 1)) \<in> set (autoClosingPairs ctx) \<and>
         (if isQuote (content ! (c - 2)) then autoClosingQuotes ctx
          else autoClosingBrackets ctx) \<noteq> AutoClosingDisabled \<and>
         \<lparr> lineNumber = l, column = c \<rparr> \<in> set (autoClosedCharacters ctx))"

text \<open>
  Modelled from the spec: with whitespaceHeuristics, "if the run of characters [...]
  in the direction of deletion is entirely Whitespace (but not a full line, and not
  crossing a line boundary), delete exactly that whitespace run instead of computing a
  word boundary". \<open>skipWhitespaceLeft cs n\<close> is the column of the last character
  among the first \<open>n\<close> that is not Whitespace (0 when there is none);
  \<open>skipWhitespaceRight cs b\<close> is the first column from \<open>b\<close> on that holds no
  Whitespace character.
\<close>

fun skipWhitespaceLeft :: "CharacterClass list \<Rightarrow> nat \<Rightarrow> nat" where
  "skipWhitespaceLeft cs 0 = 0"
| "skipWhitespaceLeft cs (Suc n) =
     (if classAt cs (Suc n) = Some Whitespace then skipWhitespaceLeft cs n else Suc n)"

function skipWhitespaceRight :: "CharacterClass list \<Rightarrow> nat \<Rightarrow> nat" where
  "skipWhitespaceRight cs b =
     (if classAt cs b = Some Whitespace then skipWhitespaceRight cs (Suc b) else b)"
  by pat_completeness auto
termination
  by (relation "measure (\<lambda>(cs, b). Suc (length cs) - b)")
     (auto simp: classAt_def split: if_splits)

definition deleteWordLeftWhitespace ::
  "WordCharacterClassifier \<Rightarrow> ITextModel \<Rightarrow> Position \<Rightarrow> Range option" where
  "deleteWordLeftWhitespace k m p =
     (let cs = lineClasses k (getLineContent m (lineNumber p));
          s = skipWhitespaceLeft cs (column p - 1) + 1
      in if s < column p \<and> \<not> (s = 1 \<and> column p = getLineMaxColumn m (lineNumber p))
         then Some \<lparr> startLineNumber = lineNumber p, startColumn = s,
                     endLineNumber = lineNumber p, endColumn = column p \<rparr>
         else None)"

definition deleteWordRightWhitespace ::
  "WordCharacterClassifier \<Rightarrow> ITextModel \<Rightarrow> Position \<Rightarrow> Range option" where
  "deleteWordRightWhitespace k m p =
     (let cs = lineClasses k (getLineContent m (lineNumber p));
          e = skipWhitespaceRight cs (column p)
      in if column p < e \<and> \<not> (column p = 1 \<and> e = getLineMaxColumn m (lineNumber p))
         then Some \<lparr> startLineNumber = lineNumber p, startColumn = column p,
                     endLineNumber = lineNumber p, endColumn = e \<rparr>
         else None)"

text \<open>
  Modelled from the spec (section 4.3). A non-empty selection is the deletion range:
  "word logic only applies when the selection is a single collapsed cursor". For a
  collapsed cursor, the auto-closing-pair widening takes the place of the boundary
  where it applies (deleting left only); "If no boundary can be computed (e.g., at
  document boundary with nothing to delete), the call signals no-op"; with
  \<open>whitespaceHeuristics\<close> the whitespace shortcut is tried; otherwise the range lies
  between the cursor and "the same boundary as moveWordLeft / moveWordRight". The
  commands pass the navigation type (\<open>WordStart\<close> for the default left deletion,
  \<open>WordEnd\<close> for the default right deletion), and the boundary is computed with it.
\<close>

definition WordOperations_deleteWordLeft ::
  "DeleteWordContext \<Rightarrow> WordNavigationType \<Rightarrow> Range option" where
  "WordOperations_deleteWordLeft ctx nav =
     (let sel = selection ctx;
          p = Selection_getPosition sel
      in if \<not> Selection_isEmpty sel then Some (Selection_range sel)
         else if isAutoClosingPairDelete ctx
           then Some \<lparr> startLineNumber = lineNumber p, startColumn = column p - 1,
                       endLineNumber = lineNumber p, endColumn = column p + 1 \<rparr>
         else if lineNumber p = 1 \<and> column p = 1 then None
         else case (if whitespaceHeuristics ctx
                    then deleteWordLeftWhitespace (wordSeparators ctx) (model ctx) p
                    else None) of
                Some r \<Rightarrow> Some r
              | None \<Rightarrow>
                  Some (Range_fromPositions
                    (WordOperations_moveWordLeft (wordSeparators ctx) (model ctx) p nav) p))"

definition WordOperations_deleteWordRight ::
  "DeleteWordContext \<Rightarrow> WordNavigationType \<Rightarrow> Range option" where
  "WordOperations_deleteWordRight ctx nav =
     (let sel = selection ctx;
          p = Selection_getPosition sel
      in if \<not> Selection_isEmpty sel then Some (Selection_range sel)
         else if lineNumber p = getLineCount (model ctx) \<and>
                 column p = getLineMaxColumn (model ctx) (lineNumber p) then None
         else case (if whitespaceHeuristics ctx
                    then deleteWordRightWhitespace (wordSeparators ctx) (model ctx) p
                    else None) of
                Some r \<Rightarrow> Some r
              | None \<Rightarrow>
                  Some (Range_fromPositions p
                    (WordOperations_moveWordRight (wordSeparators ctx) (model ctx) p nav)))"

section \<open>The commands\<close>

subsection \<open>What the commands import\<close>

text \<open>
  The commands reach the word operations, the classifier and the default separator
  string through imports. The record below holds exactly the imported members the
  commands call, so that every statement about a command can be made for any
  implementation of them.
\<close>

record Imports =
  moveWordLeft ::
    "WordCharacterClassifier \<Rightarrow> ITextModel \<Rightarrow> Position \<Rightarrow> WordNavigationType \<Rightarrow> Position"
  moveWordRight ::
    "WordCharacterClassifier \<Rightarrow> ITextModel \<Rightarrow> Position \<Rightarrow> WordNavigationType \<Rightarrow> Position"
  deleteWordLeft :: "DeleteWordContext \<Rightarrow> WordNavigationType \<Rightarrow> Range option"
  deleteWordRight :: "DeleteWordContext \<Rightarrow> WordNavigationType \<Rightarrow> Range option"
  getMapForWordSeparators :: "codeUnit list \<Rightarrow> WordCharacterClassifier"
  wordSeparators_defaultValue :: "codeUnit list"

text \<open>
  The imports as the previous sections model them; the default separator string, whose
  value is declared with the editor options, stays a parameter.
\<close>

definition modelledImports :: "codeUnit list \<Rightarrow> Imports" where
  "modelledImports defaultSeparators =
     \<lparr> moveWordLeft = WordOperations_moveWordLeft,
       moveWordRight = WordOperations_moveWordRight,
       deleteWordLeft = WordOperations_deleteWordLeft,
       deleteWordRight = WordOperations_deleteWordRight,
       getMapForWordSeparators = new_WordCharacterClassifier,
       wordSeparators_defaultValue = defaultSeparators \<rparr>"

subsection \<open>Command options\<close>

text \<open>
  A key chord \<^verbatim>\<open>KeyMod.CtrlCmd | KeyMod.Shift | KeyCode.LeftArrow\<close> is kept symbolic:
  the set of its modifiers and its key.
\<close>

datatype KeyMod = CtrlCmd | Shift | Alt | WinCtrl

datatype KeyCode = LeftArrow | RightArrow | Backspace | Delete

record Keybinding =
  keyMods :: "KeyMod set"
  keyCode :: KeyCode

datatype ContextKeyExpr =
  textInputFocus
| writable
| accessibilityModeEnabled
| isWindows
| ctxAnd ContextKeyExpr ContextKeyExpr
| ctxNegate ContextKeyExpr

datatype KeybindingWeight = EditorContrib

record KbOpts =
  kbExpr :: ContextKeyExpr
  primary :: Keybinding
  mac :: Keybinding
  weight :: KeybindingWeight

record ICommandOptions =
  cmd_id :: string
  precondition :: "ContextKeyExpr option"
  kbOpts :: "KbOpts option"

record MoveWordOptions = ICommandOptions +
  inSelectionMode :: bool
  wordNavigationType :: WordNavigationType


subsection \<open>The editor\<close>

text \<open>
  The editor is what the commands read of it: whether it has a model, the
  \<^verbatim>\<open>wordSeparators\<close> option, the selections, and for deletion the auto-closing
  options, the auto-closing pairs of the model's language and the auto-closed
  characters of the view model. What a command does to the editor is the sequence of
  its calls.
\<close>

record ICodeEditor =
  ed_model :: "ITextModel option"
  ed_wordSeparators :: "codeUnit list"
  ed_selections :: "Selection list"
  ed_autoClosingDelete :: AutoClosingDelete
  ed_autoClosingBrackets :: AutoClosingStrategy
  ed_autoClosingQuotes :: AutoClosingStrategy
  ed_autoClosingPairs :: "(codeUnit \<times> codeUnit) list"
  ed_autoClosedCharacters :: "Position list"

record ReplaceCommand =
  replaceRange :: Range
  replaceText :: string

datatype EditorCall =
  PushStackElement
| SetCursorStates string "Selection list"
| RevealPosition Position
| PushUndoStop
| ExecuteCommands string "ReplaceCommand list"

subsection \<open>MoveWordCommand\<close>

record MoveWordCommand =
  mw_opts :: MoveWordOptions
  mw_inSelectionMode :: bool
  mw_wordNavigationType :: WordNavigationType
  mw_move ::
    "Imports \<Rightarrow> WordCharacterClassifier \<Rightarrow> ITextModel \<Rightarrow> Position \<Rightarrow>
     WordNavigationType \<Rightarrow> Position"

text \<open>
  The constructor keeps the options and copies the two fields; the abstract
  \<^verbatim>\<open>_move\<close> is the method of the concrete class.
\<close>

definition new_MoveWordCommand ::
  "(Imports \<Rightarrow> WordCharacterClassifier \<Rightarrow> ITextModel \<Rightarrow> Position \<Rightarrow>
    WordNavigationType \<Rightarrow> Position) \<Rightarrow> MoveWordOptions \<Rightarrow> MoveWordCommand" where
  "new_MoveWordCommand mv opts =
     \<lparr> mw_opts = opts,
       mw_inSelectionMode = inSelectionMode opts,
       mw_wordNavigationType = wordNavigationType opts,
       mw_move = mv \<rparr>"

definition MoveWordCommand_moveTo :: "Selection \<Rightarrow> Position \<Rightarrow> bool \<Rightarrow> Selection" where
  "MoveWordCommand_moveTo from to inSel =
     (if inSel
      then \<lparr> selectionStartLineNumber = selectionStartLineNumber from,
             selectionStartColumn = selectionStartColumn from,
             positionLineNumber = lineNumber to,
             positionColumn = column to \<rparr>
      else \<lparr> selectionStartLineNumber = lineNumber to,
             selectionStartColumn = column to,
             positionLineNumber = lineNumber to,
             positionColumn = column to \<rparr>)"

definition MoveWordCommand_runEditorCommand ::
  "Imports \<Rightarrow> MoveWordCommand \<Rightarrow> ICodeEditor \<Rightarrow> EditorCall list" where
  "MoveWordCommand_runEditorCommand I cmd editor =
     (case ed_model editor of
        None \<Rightarrow> []
      | Some m \<Rightarrow>
          (let seps = getMapForWordSeparators I (ed_wordSeparators editor);
               result = map (\<lambda>sel.
                 let inPosition = \<lparr> lineNumber = positionLineNumber sel,
                                     column = positionColumn sel \<rparr>;
                     outPosition = mw_move cmd I seps m inPosition (mw_wordNavigationType cmd)
                 in MoveWordCommand_moveTo sel outPosition (mw_inSelectionMode cmd))
                 (ed_selections editor)
           in [PushStackElement, SetCursorStates ''moveWordCommand'' result] @
              (if length result = 1
               then [RevealPosition \<lparr> lineNumber = positionLineNumber (result ! 0),
                                      column = positionColumn (result ! 0) \<rparr>]
               else [])))"

definition WordLeftCommand_move ::
  "Imports \<Rightarrow> WordCharacterClassifier \<Rightarrow> ITextModel \<Rightarrow> Position \<Rightarrow>
   WordNavigationType \<Rightarrow> Position" where
  "WordLeftCommand_move I seps m p nav = moveWordLeft I seps m p nav"

definition WordRightCommand_move ::
  "Imports \<Rightarrow> WordCharacterClassifier \<Rightarrow> ITextModel \<Rightarrow> Position \<Rightarrow>
   WordNavigationType \<Rightarrow> Position" where
  "WordRightCommand_move I seps m p nav = moveWordRight I seps m p nav"

text \<open>The key expression of the four word-navigation commands that have a key.\<close>

definition wordNavigationKbExpr :: ContextKeyExpr where
  "wordNavigationKbExpr =
     ctxAnd textInputFocus (ctxNegate (ctxAnd accessibilityModeEnabled isWindows))"

definition CursorWordStartLeft :: MoveWordCommand where
  "CursorWordStartLeft = new_MoveWordCommand WordLeftCommand_move
     \<lparr> cmd_id = ''cursorWordStartLeft'', precondition = None, kbOpts = None,
       inSelectionMode = False, wordNavigationType = WordStart \<rparr>"

definition CursorWordEndLeft :: MoveWordCommand where
  "CursorWordEndLeft = new_MoveWordCommand WordLeftCommand_move
     \<lparr> cmd_id = ''cursorWordEndLeft'', precondition = None, kbOpts = None,
       inSelectionMode = False, wordNavigationType = WordEnd \<rparr>"

definition CursorWordLeft :: MoveWordCommand where
  "CursorWordLeft = new_MoveWordCommand WordLeftCommand_move
     \<lparr> cmd_id = ''cursorWordLeft'', precondition = None,
       kbOpts = Some \<lparr> kbExpr = wordNavigationKbExpr,
                       primary = \<lparr> keyMods = {CtrlCmd}, keyCode = LeftArrow \<rparr>,
                       mac = \<lparr> keyMods = {Alt}, keyCode = LeftArrow \<rparr>,
                       weight = EditorContrib \<rparr>,
       inSelectionMode = False, wordNavigationType = WordStartFast \<rparr>"

definition CursorWordStartLeftSelect :: MoveWordCommand where
  "CursorWordStartLeftSelect = new_MoveWordCommand WordLeftCommand_move
     \<lparr> cmd_id = ''cursorWordStartLeftSelect'', precondition = None, kbOpts = None,
       inSelectionMode = True, wordNavigationType = WordStart \<rparr>"

definition CursorWordEndLeftSelect :: MoveWordCommand where
  "CursorWordEndLeftSelect = new_MoveWordCommand WordLeftCommand_move
     \<lparr> cmd_id = ''cursorWordEndLeftSelect'', precondition = None, kbOpts = None,
       inSelectionMode = True, wordNavigationType = WordEnd \<rparr>"

definition CursorWordLeftSelect :: MoveWordCommand where
  "CursorWordLeftSelect = new_MoveWordCommand WordLeftCommand_move
     \<lparr> cmd_id = ''cursorWordLeftSelect'', precondition = None,
       kbOpts = Some \<lparr> kbExpr = wordNavigationKbExpr,
                       primary = \<lparr> keyMods = {CtrlCmd, Shift}, keyCode = LeftArrow \<rparr>,
                       mac = \<lparr> keyMods = {Alt, Shift}, keyCode = LeftArrow \<rparr>,
                       weight = EditorContrib \<rparr>,
       inSelectionMode = True, wordNavigationType = WordStartFast \<rparr>"

text \<open>
  The accessibility commands override \<^verbatim>\<open>_move\<close>: the classifier they are given is
  dropped and the one of the default separators goes to the superclass method.
\<close>

definition CursorWordAccessibilityLeft_move ::
  "Imports \<Rightarrow> WordCharacterClassifier \<Rightarrow> ITextModel \<Rightarrow> Position \<Rightarrow>
   WordNavigationType \<Rightarrow> Position" where
  "CursorWordAccessibilityLeft_move I unused m p nav =
     WordLeftCommand_move I (getMapForWordSeparators I (wordSeparators_defaultValue I)) m p nav"

definition CursorWordAccessibilityLeft :: MoveWordCommand where
  "CursorWordAccessibilityLeft = new_MoveWordCommand CursorWordAccessibilityLeft_move
     \<lparr> cmd_id = ''cursorWordAccessibilityLeft'', precondition = None, kbOpts = None,
       inSelectionMode = False, wordNavigationType = WordAccessibility \<rparr>"

definition CursorWordAccessibilityLeftSelect_move ::
  "Imports \<Rightarrow> WordCharacterClassifier \<Rightarrow> ITextModel \<Rightarrow> Position \<Rightarrow>
   WordNavigationType \<Rightarrow> Position" where
  "CursorWordAccessibilityLeftSelect_move I unused m p nav =
     WordLeftCommand_move I (getMapForWordSeparators I (wordSeparators_defaultValue I)) m p nav"

definition CursorWordAccessibilityLeftSelect :: MoveWordCommand where
  "CursorWordAccessibilityLeftSelect =
     new_MoveWordCommand CursorWordAccessibilityLeftSelect_move
     \<lparr> cmd_id = ''cursorWordAccessibilityLeftSelect'', precondition = None, kbOpts = None,
       inSelectionMode = True, wordNavigationType = WordAccessibility \<rparr>"

definition CursorWordStartRight :: MoveWordCommand where
  "CursorWordStartRight = new_MoveWordCommand WordRightCommand_move
     \<lparr> cmd_id = ''cursorWordStartRight'', precondition = None, kbOpts = None,
       inSelectionMode = False, wordNavigationType = WordStart \<rparr>"

definition CursorWordEndRight :: MoveWordCommand where
  "CursorWordEndRight = new_MoveWordCommand WordRightCommand_move
     \<lparr> cmd_id = ''cursorWordEndRight'', precondition = None,
       kbOpts = Some \<lparr> kbExpr = wordNavigationKbExpr,
                       primary = \<lparr> keyMods = {CtrlCmd}, keyCode = RightArrow \<rparr>,
                       mac = \<lparr> keyMods = {Alt}, keyCode = RightArrow \<rparr>,
                       weight = EditorContrib \<rparr>,
       inSelectionMode = False, wordNavigationType = WordEnd \<rparr>"

definition CursorWordRight :: MoveWordCommand where
  "CursorWordRight = new_MoveWordCommand WordRightCommand_move
     \<lparr> cmd_id = ''cursorWordRight'', precondition = None, kbOpts = None,
       inSelectionMode = False, wordNavigationType = WordEnd \<rparr>"

definition CursorWordStartRightSelect :: MoveWordCommand where
  "CursorWordStartRightSelect = new_MoveWordCommand WordRightCommand_move
     \<lparr> cmd_id = ''cursorWordStartRightSelect'', precondition = None, kbOpts = None,
       inSelectionMode = True, wordNavigationType = WordStart \<rparr>"

definition CursorWordEndRightSelect :: MoveWordCommand where
  "CursorWordEndRightSelect = new_MoveWordCommand WordRightCommand_move
     \<lparr> cmd_id = ''cursorWordEndRightSelect'', precondition = None,
       kbOpts = Some \<lparr> kbExpr = wordNavigationKbExpr,
                       primary = \<lparr> keyMods = {CtrlCmd, Shift}, keyCode = RightArrow \<rparr>,
                       mac = \<lparr> keyMods = {Alt, Shift}, keyCode = RightArrow \<rparr>,
                       weight = EditorContrib \<rparr>,
       inSelectionMode = True, wordNavigationType = WordEnd \<rparr>"

definition CursorWordRightSelect :: MoveWordCommand where
  "CursorWordRightSelect = new_MoveWordCommand WordRightCommand_move
     \<lparr> cmd_id = ''cursorWordRightSelect'', precondition = None, kbOpts = None,
       inSelectionMode = True, wordNavigationType = WordEnd \<rparr>"

definition CursorWordAccessibilityRight_move ::
  "Imports \<Rightarrow> WordCharacterClassifier \<Rightarrow> ITextModel \<Rightarrow> Position \<Rightarrow>
   WordNavigationType \<Rightarrow> Position" where
  "CursorWordAccessibilityRight_move I unused m p nav =
     WordRightCommand_move I (getMapForWordSeparators I (wordSeparators_defaultValue I)) m p nav"

definition CursorWordAccessibilityRight :: MoveWordCommand where
  "CursorWordAccessibilityRight = new_MoveWordCommand CursorWordAccessibilityRight_move
     \<lparr> cmd_id = ''cursorWordAccessibilityRight'', precondition = None, kbOpts = None,
       inSelectionMode = False, wordNavigationType = WordAccessibility \<rparr>"

definition CursorWordAccessibilityRightSelect_move ::
  "Imports \<Rightarrow> WordCharacterClassifier \<Rightarrow> ITextModel \<Rightarrow> Position \<Rightarrow>
   WordNavigationType \<Rightarrow> Position" where
  "CursorWordAccessibilityRightSelect_move I unused m p nav =
     WordRightCommand_move I (getMapForWordSeparators I (wordSeparators_defaultValue I)) m p nav"

definition CursorWordAccessibilityRightSelect :: MoveWordCommand where
  "CursorWordAccessibilityRightSelect =
     new_MoveWordCommand CursorWordAccessibilityRightSelect_move
     \<lparr> cmd_id = ''cursorWordAccessibilityRightSelect'', precondition = None, kbOpts = None,
       inSelectionMode = True, wordNavigationType = WordAccessibility \<rparr>"

subsection \<open>DeleteWordCommand\<close>




definition DeleteWordLeftCommand_delete ::
  "Imports \<Rightarrow> DeleteWordContext \<Rightarrow> WordNavigationType \<Rightarrow> Range" where
  "DeleteWordLeftCommand_delete I ctx nav =
     (case deleteWordLeft I ctx nav of
        Some r \<Rightarrow> r
      | None \<Rightarrow> \<lparr> startLineNumber = 1, startColumn = 1, endLineNumber = 1, endColumn = 1 \<rparr>)"

definition DeleteWordRightCommand_delete ::
  "Imports \<Rightarrow> DeleteWordContext \<Rightarrow> WordNavigationType \<Rightarrow> Range" where
  "DeleteWordRightCommand_delete I ctx nav =
     (case deleteWordRight I ctx nav of
        Some r \<Rightarrow> r
      | None \<Rightarrow>
          (let lineCount = getLineCount (model ctx);
               maxColumn = getLineMaxColumn (model ctx) lineCount
           in \<lparr> startLineNumber = lineCount, startColumn = maxColumn,
                endLineNumber = lineCount, endColumn = maxColumn \<rparr>))"







subsection \<open>Registration and key lookup\<close>

text \<open>The \<^verbatim>\<open>registerEditorCommand\<close> calls, in their order.\<close>

definition registeredMoveWordCommands :: "MoveWordCommand list" where
  "registeredMoveWordCommands =
     [CursorWordStartLeft, CursorWordEndLeft, CursorWordLeft,
      CursorWordStartLeftSelect, CursorWordEndLeftSelect, CursorWordLeftSelect,
      CursorWordStartRight, CursorWordEndRight, CursorWordRight,
      CursorWordStartRightSelect, CursorWordEndRightSelect, CursorWordRightSelect,
      CursorWordAccessibilityLeft, CursorWordAccessibilityLeftSelect,
      CursorWordAccessibilityRight, CursorWordAccessibilityRightSelect]"


text \<open>Whether the primary key chord of a command's options is the given one.\<close>

definition hasPrimaryKey :: "'a ICommandOptions_scheme \<Rightarrow> Keybinding \<Rightarrow> bool" where
  "hasPrimaryKey opts chord =
     (case kbOpts opts of None \<Rightarrow> False | Some kb \<Rightarrow> primary kb = chord)"

definition moveWordCommandsBoundTo :: "Keybinding \<Rightarrow> MoveWordCommand list" where
  "moveWordCommandsBoundTo chord =
     filter (\<lambda>cmd. hasPrimaryKey (mw_opts cmd) chord) registeredMoveWordCommands"


definition ctrlLeft :: Keybinding where
  "ctrlLeft = \<lparr> keyMods = {CtrlCmd}, keyCode = LeftArrow \<rparr>"

definition ctrlRight :: Keybinding where
  "ctrlRight = \<lparr> keyMods = {CtrlCmd}, keyCode = RightArrow \<rparr>"



subsection \<open>Concrete inputs\<close>

text \<open>
  A collapsed selection at a position, and a deletion context over a list of lines with
  no auto-closing pair registered.
\<close>

definition collapsedAt :: "nat \<Rightarrow> nat \<Rightarrow> Selection" where
  "collapsedAt l c =
     \<lparr> selectionStartLineNumber = l, selectionStartColumn = c,
       positionLineNumber = l, positionColumn = c \<rparr>"

definition plainContext ::
  "codeUnit list \<Rightarrow> codeUnit list list \<Rightarrow> Selection \<Rightarrow> bool \<Rightarrow> DeleteWordContext" where
  "plainContext seps ls sel heuristics =
     \<lparr> wordSeparators = new_WordCharacterClassifier seps,
       model = \<lparr> lines = ls \<rparr>,
       selection = sel,
       whitespaceHeuristics = heuristics,
       autoClosingDelete = DeleteAuto,
       autoClosingBrackets = AutoClosingOn,
       autoClosingQuotes = AutoClosingOn,
       autoClosingPairs = [],
       autoClosedCharacters = [] \<rparr>"

text \<open>
  Imports whose two deletion operations return one fixed result (a range, or the no-op
  signal) and whose moves stay in place, to run a delete command against.
\<close>

definition fixedResultImports :: "Range option \<Rightarrow> Imports" where
  "fixedResultImports r =
     \<lparr> moveWordLeft = (\<lambda>k m p nav. p),
       moveWordRight = (\<lambda>k m p nav. p),
       deleteWordLeft = (\<lambda>ctx nav. r),
       deleteWordRight = (\<lambda>ctx nav. r),
       getMapForWordSeparators = new_WordCharacterClassifier,
       wordSeparators_defaultValue = [] \<rparr>"

text \<open>
  The one-line buffer "()" with the cursor between the two characters, the pair
  registered as auto-closing and the closing character recorded as auto-inserted;
  whitespace heuristics are off.
\<close>

definition autoClosedParensContext :: DeleteWordContext where
  "autoClosedParensContext =
     \<lparr> wordSeparators = new_WordCharacterClassifier (codeUnits ''()''),
       model = \<lparr> lines = [codeUnits ''()''] \<rparr>,
       selection = collapsedAt 1 2,
       whitespaceHeuristics = False,
       autoClosingDelete = DeleteAuto,
       autoClosingBrackets = AutoClosingOn,
       autoClosingQuotes = AutoClosingOn,
       autoClosingPairs = [(40, 41)],
       autoClosedCharacters = [\<lparr> lineNumber = 1, column = 2 \<rparr>] \<rparr>"

text \<open>
  Columns \<open>s\<close> up to \<open>e\<close> (exclusive) of a line are a maximal run of Regular
  characters: all of them are Regular, and neither the character before column \<open>s\<close>
  nor the one at column \<open>e\<close> is.
\<close>

definition isMaximalRegularRun :: "CharacterClass list \<Rightarrow> nat \<Rightarrow> nat \<Rightarrow> bool" where
  "isMaximalRegularRun cs s e \<longleftrightarrow>
     s < e \<and> (\<forall>i \<in> {s..<e}. classAt cs i = Some Regular) \<and>
     classAt cs (s - 1) \<noteq> Some Regular \<and> classAt cs e \<noteq> Some Regular"

section \<open>Properties\<close>

declare scanRight.simps [simp del]

declare skipWhitespaceRight.simps [simp del]

subsection \<open>Evaluation lemmas\<close>

lemma classify_new [simp]:
  "classify (new_WordCharacterClassifier S) ch = classifyDirect (codePointsOf S) ch"
  by (simp add: classify_def new_WordCharacterClassifier_def)

lemma isBoundary_fun [simp]:
  "isBoundary WordStart cs = isWordStart cs"
  "isBoundary WordEnd cs = isWordEnd cs"
  "isBoundary WordStartFast cs = isWordStartFast cs"
  "isBoundary WordAccessibility cs = isWordStart cs"
  by (rule ext, simp)+

lemma length_lineClasses [simp]: "length (lineClasses k xs) = length xs"
  by (induction k xs rule: lineClasses.induct) simp_all


lemma skipWhitespaceLeft_unfold:
  "skipWhitespaceLeft cs n =
     (if n = 0 then 0
      else if classAt cs n = Some Whitespace then skipWhitespaceLeft cs (n - 1) else n)"
  by (cases n) simp_all

lemmas model_defs =
  getLineCount_def getLineContent_def getLineMaxColumn_def codeUnits_def
  classifyDirect_def isUnicodeWhitespace_def isHighSurrogate_def isLowSurrogate_def
  classAt_def isWordStart_def isWordEnd_def isWordStartFast_def
  WordOperations_moveWordLeft_def WordOperations_moveWordRight_def
  Selection_isEmpty_def Selection_range_def Range_fromPositions_def
  Selection_getPosition_def isAutoClosingPairDelete_def isQuote_def
  deleteWordLeftWhitespace_def deleteWordRightWhitespace_def
  WordOperations_deleteWordLeft_def WordOperations_deleteWordRight_def
  modelledImports_def collapsedAt_def plainContext_def autoClosedParensContext_def

lemmas moveWordCommand_defs =
  new_MoveWordCommand_def
  CursorWordStartLeft_def CursorWordEndLeft_def CursorWordLeft_def
  CursorWordStartLeftSelect_def CursorWordEndLeftSelect_def CursorWordLeftSelect_def
  CursorWordStartRight_def CursorWordEndRight_def CursorWordRight_def
  CursorWordStartRightSelect_def CursorWordEndRightSelect_def CursorWordRightSelect_def
  CursorWordAccessibilityLeft_def CursorWordAccessibilityLeftSelect_def
  CursorWordAccessibilityRight_def CursorWordAccessibilityRightSelect_def


subsection \<open>The selection update of a move\<close>

text \<open>
  Claim C10. In selection mode \<^verbatim>\<open>_moveTo\<close> keeps the anchor of the starting
  selection (its \<open>selectionStartLineNumber\<close> and \<open>selectionStartColumn\<close>) and
  moves only the active end to the target; outside selection mode it returns the
  collapsed selection at the target. This holds for every starting selection and every
  target position.
\<close>

theorem moveTo_keeps_anchor:
  "selectionStartLineNumber (MoveWordCommand_moveTo from to True) =
     selectionStartLineNumber from \<and>
   selectionStartColumn (MoveWordCommand_moveTo from to True) =
     selectionStartColumn from \<and>
   positionLineNumber (MoveWordCommand_moveTo from to True) = lineNumber to \<and>
   positionColumn (MoveWordCommand_moveTo from to True) = column to \<and>
   MoveWordCommand_moveTo from to False =
     \<lparr> selectionStartLineNumber = lineNumber to, selectionStartColumn = column to,
       positionLineNumber = lineNumber to, positionColumn = column to \<rparr>"
  by (simp add: MoveWordCommand_moveTo_def)

subsection \<open>Which navigation type a command moves with\<close>

text \<open>
  Claim C9. \<^verbatim>\<open>CursorWordRight\<close> and \<^verbatim>\<open>CursorWordEndRight\<close> are both constructed
  with \<open>WordEnd\<close> and without selection mode; for every implementation of the
  imports, every classifier, model and position they move to the same position, and on
  every editor they make the same calls with the same selections.
\<close>

theorem wordRight_same_as_wordEndRight:
  "wordNavigationType (mw_opts CursorWordRight) = WordEnd \<and>
   wordNavigationType (mw_opts CursorWordEndRight) = WordEnd \<and>
   \<not> inSelectionMode (mw_opts CursorWordRight) \<and>
   \<not> inSelectionMode (mw_opts CursorWordEndRight) \<and>
   mw_move CursorWordRight I k m p (mw_wordNavigationType CursorWordRight) =
     mw_move CursorWordEndRight I k m p (mw_wordNavigationType CursorWordEndRight) \<and>
   MoveWordCommand_runEditorCommand I CursorWordRight editor =
     MoveWordCommand_runEditorCommand I CursorWordEndRight editor"
  by (simp add: CursorWordRight_def CursorWordEndRight_def new_MoveWordCommand_def
      MoveWordCommand_runEditorCommand_def Let_def split: option.split)

text \<open>
  Claim C1, as stated, fails for Ctrl+Right: the one registered command whose primary
  key is Ctrl+Right moves with \<open>WordEnd\<close>, which is not \<open>WordStartFast\<close>.
\<close>

theorem ctrlRight_is_not_wordStartFast:
  "map (\<lambda>cmd. cmd_id (mw_opts cmd)) (moveWordCommandsBoundTo ctrlRight) =
     [''cursorWordEndRight''] \<and>
   map mw_wordNavigationType (moveWordCommandsBoundTo ctrlRight) = [WordEnd] \<and>
   mw_wordNavigationType CursorWordEndRight \<noteq> WordStartFast"
  by (simp add: moveWordCommandsBoundTo_def registeredMoveWordCommands_def hasPrimaryKey_def
      ctrlRight_def moveWordCommand_defs)

text \<open>
  Claim C1, amended. The one command bound to Ctrl+Left is \<^verbatim>\<open>CursorWordLeft\<close> and
  it computes its boundary with \<open>moveWordLeft\<close> and \<open>WordStartFast\<close>; the one
  command bound to Ctrl+Right is \<^verbatim>\<open>CursorWordEndRight\<close> and it computes its boundary
  with \<open>moveWordRight\<close> and \<open>WordEnd\<close>; both for every implementation of the
  imports, every classifier, model and position.
\<close>

theorem ctrl_arrows_navigation_types:
  "map (\<lambda>cmd. cmd_id (mw_opts cmd)) (moveWordCommandsBoundTo ctrlLeft) =
     [''cursorWordLeft''] \<and>
   map mw_wordNavigationType (moveWordCommandsBoundTo ctrlLeft) = [WordStartFast] \<and>
   map (\<lambda>cmd. cmd_id (mw_opts cmd)) (moveWordCommandsBoundTo ctrlRight) =
     [''cursorWordEndRight''] \<and>
   map mw_wordNavigationType (moveWordCommandsBoundTo ctrlRight) = [WordEnd] \<and>
   mw_move CursorWordLeft I k m p (mw_wordNavigationType CursorWordLeft) =
     moveWordLeft I k m p WordStartFast \<and>
   mw_move CursorWordEndRight I k m p (mw_wordNavigationType CursorWordEndRight) =
     moveWordRight I k m p WordEnd"
  by (simp add: moveWordCommandsBoundTo_def registeredMoveWordCommands_def hasPrimaryKey_def
      ctrlLeft_def ctrlRight_def moveWordCommand_defs
      WordLeftCommand_move_def WordRightCommand_move_def)

subsection \<open>The accessibility commands\<close>

text \<open>
  Claim C2. For every implementation of the imports, every model, position and
  classifier handed in, each of the four accessibility commands moves to the position
  that \<open>moveWordLeft\<close> (or \<open>moveWordRight\<close>) gives with the classifier of the
  default \<open>wordSeparators\<close> value; the classifier handed in does not occur in the
  result, and neither does the editor's \<open>wordSeparators\<close> option in the calls the
  command makes.
\<close>

theorem accessibility_commands_use_default_separators:
  "mw_move CursorWordAccessibilityLeft I k m p nav =
     moveWordLeft I (getMapForWordSeparators I (wordSeparators_defaultValue I)) m p nav \<and>
   mw_move CursorWordAccessibilityLeftSelect I k m p nav =
     moveWordLeft I (getMapForWordSeparators I (wordSeparators_defaultValue I)) m p nav \<and>
   mw_move CursorWordAccessibilityRight I k m p nav =
     moveWordRight I (getMapForWordSeparators I (wordSeparators_defaultValue I)) m p nav \<and>
   mw_move CursorWordAccessibilityRightSelect I k m p nav =
     moveWordRight I (getMapForWordSeparators I (wordSeparators_defaultValue I)) m p nav \<and>
   MoveWordCommand_runEditorCommand I CursorWordAccessibilityLeft
       (editor\<lparr> ed_wordSeparators := s \<rparr>) =
     MoveWordCommand_runEditorCommand I CursorWordAccessibilityLeft editor \<and>
   MoveWordCommand_runEditorCommand I CursorWordAccessibilityLeftSelect
       (editor\<lparr> ed_wordSeparators := s \<rparr>) =
     MoveWordCommand_runEditorCommand I CursorWordAccessibilityLeftSelect editor \<and>
   MoveWordCommand_runEditorCommand I CursorWordAccessibilityRight
       (editor\<lparr> ed_wordSeparators := s \<rparr>) =
     MoveWordCommand_runEditorCommand I CursorWordAccessibilityRight editor \<and>
   MoveWordCommand_runEditorCommand I CursorWordAccessibilityRightSelect
       (editor\<lparr> ed_wordSeparators := s \<rparr>) =
     MoveWordCommand_runEditorCommand I CursorWordAccessibilityRightSelect editor"
  by (simp add: moveWordCommand_defs MoveWordCommand_runEditorCommand_def Let_def
      CursorWordAccessibilityLeft_move_def CursorWordAccessibilityLeftSelect_move_def
      CursorWordAccessibilityRight_move_def CursorWordAccessibilityRightSelect_move_def
      WordLeftCommand_move_def WordRightCommand_move_def split: option.split)

subsection \<open>The delete commands and the no-op signal\<close>

text \<open>
  Claim C3. When the word operation returns the no-op signal, the left-deletion
  command returns the zero-width range (1,1)-(1,1) and the right-deletion command the
  zero-width range at the max column of the last line; when the word operation returns
  a range, the command returns that range unchanged. This holds for every
  implementation of the imports.
\<close>

theorem delete_command_substitutes:
  "(deleteWordLeft I ctx nav = None \<longrightarrow>
      DeleteWordLeftCommand_delete I ctx nav =
        \<lparr> startLineNumber = 1, startColumn = 1, endLineNumber = 1, endColumn = 1 \<rparr>) \<and>
   (deleteWordLeft I ctx nav = Some r \<longrightarrow> DeleteWordLeftCommand_delete I ctx nav = r) \<and>
   (deleteWordRight I ctx nav = None \<longrightarrow>
      DeleteWordRightCommand_delete I ctx nav =
        \<lparr> startLineNumber = getLineCount (model ctx),
          startColumn = getLineMaxColumn (model ctx) (getLineCount (model ctx)),
          endLineNumber = getLineCount (model ctx),
          endColumn = getLineMaxColumn (model ctx) (getLineCount (model ctx)) \<rparr>) \<and>
   (deleteWordRight I ctx nav = Some r' \<longrightarrow> DeleteWordRightCommand_delete I ctx nav = r')"
  by (simp add: DeleteWordLeftCommand_delete_def DeleteWordRightCommand_delete_def Let_def)

text \<open>
  Witness for C3, on the one-line buffer "ab": against a word operation that signals
  no-op the left-deletion command returns (1,1)-(1,1) and the right-deletion command
  (1,3)-(1,3), the end of the buffer; against one that returns the range (1,1)-(1,3)
  both commands return that range.
\<close>

theorem delete_command_substitutes_witness:
  "deleteWordLeft (fixedResultImports None)
     (plainContext [] [codeUnits ''ab''] (collapsedAt 1 1) False) WordStart = None \<and>
   DeleteWordLeftCommand_delete (fixedResultImports None)
     (plainContext [] [codeUnits ''ab''] (collapsedAt 1 1) False) WordStart =
     \<lparr> startLineNumber = 1, startColumn = 1, endLineNumber = 1, endColumn = 1 \<rparr> \<and>
   deleteWordRight (fixedResultImports None)
     (plainContext [] [codeUnits ''ab''] (collapsedAt 1 1) False) WordStart = None \<and>
   DeleteWordRightCommand_delete (fixedResultImports None)
     (plainContext [] [codeUnits ''ab''] (collapsedAt 1 1) False) WordStart =
     \<lparr> startLineNumber = 1, startColumn = 3, endLineNumber = 1, endColumn = 3 \<rparr> \<and>
   deleteWordLeft (fixedResultImports
       (Some \<lparr> startLineNumber = 1, startColumn = 1, endLineNumber = 1, endColumn = 3 \<rparr>))
     (plainContext [] [codeUnits ''ab''] (collapsedAt 1 1) False) WordEnd =
     Some \<lparr> startLineNumber = 1, startColumn = 1, endLineNumber = 1, endColumn = 3 \<rparr> \<and>
   DeleteWordLeftCommand_delete (fixedResultImports
       (Some \<lparr> startLineNumber = 1, startColumn = 1, endLineNumber = 1, endColumn = 3 \<rparr>))
     (plainContext [] [codeUnits ''ab''] (collapsedAt 1 1) False) WordEnd =
     \<lparr> startLineNumber = 1, startColumn = 1, endLineNumber = 1, endColumn = 3 \<rparr> \<and>
   deleteWordRight (fixedResultImports
       (Some \<lparr> startLineNumber = 1, startColumn = 1, endLineNumber = 1, endColumn = 3 \<rparr>))
     (plainContext [] [codeUnits ''ab''] (collapsedAt 1 1) False) WordEnd =
     Some \<lparr> startLineNumber = 1, startColumn = 1, endLineNumber = 1, endColumn = 3 \<rparr> \<and>
   DeleteWordRightCommand_delete (fixedResultImports
       (Some \<lparr> startLineNumber = 1, startColumn = 1, endLineNumber = 1, endColumn = 3 \<rparr>))
     (plainContext [] [codeUnits ''ab''] (collapsedAt 1 1) False) WordEnd =
     \<lparr> startLineNumber = 1, startColumn = 1, endLineNumber = 1, endColumn = 3 \<rparr>"
proof -
  let ?all = "\<lparr> startLineNumber = 1, startColumn = 1, endLineNumber = 1, endColumn = 3 \<rparr>"
  let ?ctx = "plainContext [] [codeUnits ''ab''] (collapsedAt 1 1) False"
  have none: "deleteWordLeft (fixedResultImports None) ?ctx WordStart = None"
    "deleteWordRight (fixedResultImports None) ?ctx WordStart = None"
    by (simp_all add: fixedResultImports_def)
  have some: "deleteWordLeft (fixedResultImports (Some ?all)) ?ctx WordEnd = Some ?all"
    "deleteWordRight (fixedResultImports (Some ?all)) ?ctx WordEnd = Some ?all"
    by (simp_all add: fixedResultImports_def)
  have m: "getLineCount (model ?ctx) = 1" "getLineMaxColumn (model ?ctx) 1 = 3"
    by (simp_all add: model_defs)
  from delete_command_substitutes [where I = "fixedResultImports None" and ctx = ?ctx
         and nav = WordStart and r = ?all and r' = ?all]
       delete_command_substitutes [where I = "fixedResultImports (Some ?all)" and ctx = ?ctx
         and nav = WordEnd and r = ?all and r' = ?all]
       none some m
  show ?thesis by simp
qed

section \<open>Properties of the modelled word operations\<close>

subsection \<open>The classifier\<close>

lemma cached_getMapForWordSeparators_sound:
  assumes "\<forall>S k. cache S = Some k \<longrightarrow> k = new_WordCharacterClassifier S"
  shows "fst (cached_getMapForWordSeparators cache input) = new_WordCharacterClassifier input"
    and "\<forall>S k. snd (cached_getMapForWordSeparators cache input) S = Some k \<longrightarrow>
           k = new_WordCharacterClassifier S"
  using assms
  by (auto simp: cached_getMapForWordSeparators_def Let_def split: option.splits)

lemma fold_cache_sound:
  "\<forall>S k. cache S = Some k \<longrightarrow> k = new_WordCharacterClassifier S \<Longrightarrow>
   \<forall>S k. fold (\<lambda>input c. snd (cached_getMapForWordSeparators c input)) history cache S = Some k
     \<longrightarrow> k = new_WordCharacterClassifier S"
proof (induction history arbitrary: cache)
  case Nil
  then show ?case by simp
next
  case (Cons input history)
  from cached_getMapForWordSeparators_sound(2) [OF Cons.prems]
  have "\<forall>S k. snd (cached_getMapForWordSeparators cache input) S = Some k \<longrightarrow>
          k = new_WordCharacterClassifier S" .
  from Cons.IH [OF this] show ?case by simp
qed

lemma cacheAfter_sound:
  "\<forall>S k. cacheAfter history S = Some k \<longrightarrow> k = new_WordCharacterClassifier S"
  unfolding cacheAfter_def by (rule fold_cache_sound) simp

lemma cached_getMapForWordSeparators_cacheAfter:
  "fst (cached_getMapForWordSeparators (cacheAfter history) input) =
     new_WordCharacterClassifier input"
  by (rule cached_getMapForWordSeparators_sound(1) [OF cacheAfter_sound])

text \<open>
  The class of a character depends on the separator string only through the set of
  its characters: duplicates and order do not matter.
\<close>

lemma classify_depends_on_separator_set:
  "set (codePointsOf S1) = set (codePointsOf S2) \<Longrightarrow>
   classify (new_WordCharacterClassifier S1) ch = classify (new_WordCharacterClassifier S2) ch"
  by (simp add: classifyDirect_def)

text \<open>
  Claim C8. Two classifier instances constructed from equal separator strings give
  every code point the same class: two fresh instances do, and so do two instances
  handed out by the memo table after any two histories of requests; the class is the
  one of the contract of section 4.1, whatever duplicates the string holds.
\<close>

theorem classifier_construction_deterministic:
  assumes "S1 = S2"
  shows "classify (new_WordCharacterClassifier S1) ch =
           classify (new_WordCharacterClassifier S2) ch \<and>
         classify (fst (cached_getMapForWordSeparators (cacheAfter h1) S1)) ch =
           classify (fst (cached_getMapForWordSeparators (cacheAfter h2) S2)) ch \<and>
         classify (fst (cached_getMapForWordSeparators (cacheAfter h1) S1)) ch =
           classifyDirect (codePointsOf S1) ch"
  using assms by (simp add: cached_getMapForWordSeparators_cacheAfter)

text \<open>
  Witness for C8: the separator string ".-." (a duplicate character), asked of the
  empty memo table and of the table after two requests; the full stop (code 46) is a
  WordSeparator in both.
\<close>

theorem classifier_construction_deterministic_witness:
  "codeUnits ''.-.'' = codeUnits ''.-.'' \<and>
   classify (fst (cached_getMapForWordSeparators (cacheAfter []) (codeUnits ''.-.''))) 46 =
     classify (fst (cached_getMapForWordSeparators
       (cacheAfter [codeUnits ''.-.'', codeUnits ''_'']) (codeUnits ''.-.''))) 46 \<and>
   classify (fst (cached_getMapForWordSeparators (cacheAfter []) (codeUnits ''.-.''))) 46 =
     WordSeparator"
proof -
  have d: "classifyDirect (codePointsOf (codeUnits ''.-.'')) 46 = WordSeparator"
    by (simp add: classifyDirect_def codeUnits_def isUnicodeWhitespace_def
        isHighSurrogate_def)
  have "classify (fst (cached_getMapForWordSeparators (cacheAfter []) (codeUnits ''.-.''))) 46 =
          classify (fst (cached_getMapForWordSeparators
            (cacheAfter [codeUnits ''.-.'', codeUnits ''_'']) (codeUnits ''.-.''))) 46"
   and "classify (fst (cached_getMapForWordSeparators (cacheAfter []) (codeUnits ''.-.''))) 46 =
          classifyDirect (codePointsOf (codeUnits ''.-.'')) 46"
    using classifier_construction_deterministic
         [OF refl, of "codeUnits ''.-.''" 46 "[]" "[codeUnits ''.-.'', codeUnits ''_'']"]
    by blast+
  with d show ?thesis by (simp only: refl simp_thms)
qed

subsection \<open>Moving at the document extremities\<close>

text \<open>
  Claim C6. For every navigation type, classifier and buffer, \<open>moveWordLeft\<close> at
  (1,1) returns (1,1), and \<open>moveWordRight\<close> at the max column of the last line
  returns that position.
\<close>

theorem moveWord_identity_at_document_extremities:
  "WordOperations_moveWordLeft k m \<lparr> lineNumber = 1, column = 1 \<rparr> nav =
     \<lparr> lineNumber = 1, column = 1 \<rparr> \<and>
   WordOperations_moveWordRight k m
     \<lparr> lineNumber = getLineCount m, column = getLineMaxColumn m (getLineCount m) \<rparr> nav =
     \<lparr> lineNumber = getLineCount m, column = getLineMaxColumn m (getLineCount m) \<rparr>"
  by (simp add: WordOperations_moveWordLeft_def WordOperations_moveWordRight_def
      scanRight.simps Let_def)

text \<open>
  The navigation type matters away from the extremities: on the line "foo bar" from
  column 1, \<open>WordEnd\<close> moves right to column 4 and \<open>WordStartFast\<close> to column 5.
\<close>

lemma wordEnd_differs_from_wordStartFast:
  "WordOperations_moveWordRight (new_WordCharacterClassifier [])
     \<lparr> lines = [codeUnits ''foo bar''] \<rparr> \<lparr> lineNumber = 1, column = 1 \<rparr> WordEnd =
     \<lparr> lineNumber = 1, column = 4 \<rparr> \<and>
   WordOperations_moveWordRight (new_WordCharacterClassifier [])
     \<lparr> lines = [codeUnits ''foo bar''] \<rparr> \<lparr> lineNumber = 1, column = 1 \<rparr> WordStartFast =
     \<lparr> lineNumber = 1, column = 5 \<rparr>"
  by (simp add: model_defs Let_def scanRight.simps)

subsection \<open>Right then left inside a word\<close>

lemma scanRight_ge: "b \<le> maxColumn \<Longrightarrow> b \<le> scanRight isB maxColumn b"
proof (induction isB maxColumn b rule: scanRight.induct)
  case (1 isB maxColumn b)
  show ?case
  proof (cases "maxColumn \<le> b \<or> isB b")
    case True
    with "1.prems" show ?thesis by (auto simp: scanRight.simps [of isB maxColumn b])
  next
    case False
    then have "Suc b \<le> scanRight isB maxColumn (Suc b)"
      using "1.IH" by simp
    with False show ?thesis by (simp add: scanRight.simps [of isB maxColumn b])
  qed
qed

lemma scanRight_skips:
  "b \<le> i \<Longrightarrow> i < scanRight isB maxColumn b \<Longrightarrow> \<not> isB i"
proof (induction isB maxColumn b rule: scanRight.induct)
  case (1 isB maxColumn b)
  show ?case
  proof (cases "maxColumn \<le> b \<or> isB b")
    case True
    with "1.prems" show ?thesis
      by (auto simp: scanRight.simps [of isB maxColumn b] split: if_splits)
  next
    case False
    then have eq: "scanRight isB maxColumn b = scanRight isB maxColumn (Suc b)"
      by (simp add: scanRight.simps [of isB maxColumn b])
    show ?thesis
    proof (cases "i = b")
      case True
      with False show ?thesis by simp
    next
      case ne: False
      with "1.prems" eq have "Suc b \<le> i" "i < scanRight isB maxColumn (Suc b)" by simp_all
      with "1.IH" False show ?thesis by simp
    qed
  qed
qed

lemma scanLeft_nearest:
  "isB s \<Longrightarrow> 1 \<le> s \<Longrightarrow> s \<le> n \<Longrightarrow> (\<forall>i. s < i \<and> i \<le> n \<longrightarrow> \<not> isB i) \<Longrightarrow>
   scanLeft isB n = s"
proof (induction n)
  case 0
  then show ?case by simp
next
  case (Suc n)
  show ?case
  proof (cases "s = Suc n")
    case True
    with Suc.prems show ?thesis by simp
  next
    case False
    with Suc.prems have "s \<le> n" "\<not> isB (Suc n)" by auto
    moreover from Suc.prems have "\<forall>i. s < i \<and> i \<le> n \<longrightarrow> \<not> isB i" by auto
    ultimately show ?thesis using Suc.IH Suc.prems(1,2) by simp
  qed
qed

lemma run_start_is_wordStart:
  assumes "isMaximalRegularRun cs s e"
  shows "isWordStart cs s" and "1 \<le> s" and "e \<le> length cs + 1"
proof -
  from assms have se: "s < e" and reg: "\<forall>i \<in> {s..<e}. classAt cs i = Some Regular"
    and before: "classAt cs (s - 1) \<noteq> Some Regular"
    by (simp_all add: isMaximalRegularRun_def)
  from se reg have at_s: "classAt cs s = Some Regular" by simp
  with before show "isWordStart cs s" by (simp add: isWordStart_def)
  from at_s show "1 \<le> s" by (simp add: classAt_def split: if_splits)
  from se reg have "classAt cs (e - 1) = Some Regular" by simp
  then show "e \<le> length cs + 1" by (simp add: classAt_def split: if_splits)
qed

lemma inside_run_no_wordStart:
  assumes "isMaximalRegularRun cs s e" and "s < i" and "i \<le> e"
  shows "\<not> isWordStart cs i"
proof (cases "i = e")
  case True
  with assms(1) show ?thesis by (simp add: isMaximalRegularRun_def isWordStart_def)
next
  case False
  with assms have "i - 1 \<in> {s..<e}" by auto
  with assms(1) have "classAt cs (i - 1) = Some Regular"
    by (simp add: isMaximalRegularRun_def)
  then show ?thesis by (simp add: isWordStart_def)
qed

text \<open>
  Claim C7. Let columns \<open>s\<close> up to \<open>e\<close> of line \<open>l\<close> be a maximal run of Regular
  characters and \<open>c\<close> a column strictly inside it. Then \<open>moveWordRight\<close> with
  \<open>WordStart\<close> from \<open>(l, c)\<close>, followed by \<open>moveWordLeft\<close> with \<open>WordStart\<close>
  from the result, ends at \<open>(l, s)\<close>, the start of the run.
\<close>

theorem wordStart_right_then_left_is_run_start:
  assumes run: "isMaximalRegularRun (lineClasses k (getLineContent m l)) s e"
    and sc: "s < c" and ce: "c < e"
  shows "WordOperations_moveWordLeft k m
           (WordOperations_moveWordRight k m \<lparr> lineNumber = l, column = c \<rparr> WordStart)
           WordStart = \<lparr> lineNumber = l, column = s \<rparr>"
proof -
  let ?cs = "lineClasses k (getLineContent m l)"
  let ?M = "getLineMaxColumn m l"
  let ?b = "scanRight (isWordStart ?cs) ?M (Suc c)"
  have M: "?M = length ?cs + 1" by (simp add: getLineMaxColumn_def)
  from run_start_is_wordStart [OF run]
  have start: "isWordStart ?cs s" and s1: "1 \<le> s" and eM: "e \<le> ?M" by (simp_all add: M)
  from ce eM have cM: "Suc c \<le> ?M" by simp
  then have notEnd: "c \<noteq> ?M" by simp
  have right: "WordOperations_moveWordRight k m \<lparr> lineNumber = l, column = c \<rparr> WordStart =
      \<lparr> lineNumber = l, column = ?b \<rparr>"
    using notEnd by (simp add: WordOperations_moveWordRight_def Let_def)
  from scanRight_ge [OF cM] have cb: "Suc c \<le> ?b" .
  with sc s1 have b1: "?b \<noteq> 1" by simp
  have none: "\<forall>i. s < i \<and> i \<le> ?b - 1 \<longrightarrow> \<not> isWordStart ?cs i"
  proof (intro allI impI)
    fix i assume i: "s < i \<and> i \<le> ?b - 1"
    show "\<not> isWordStart ?cs i"
    proof (cases "i \<le> c")
      case True
      with i ce show ?thesis using inside_run_no_wordStart [OF run, of i] by simp
    next
      case False
      with i cb have "Suc c \<le> i" "i < ?b" by linarith+
      then show ?thesis by (rule scanRight_skips)
    qed
  qed
  from sc cb have sb: "s \<le> ?b - 1" by simp
  have left: "scanLeft (isWordStart ?cs) (?b - 1) = s"
    using start s1 sb none by (rule scanLeft_nearest)
  show ?thesis
    using b1 left by (simp add: right WordOperations_moveWordLeft_def Let_def)
qed

text \<open>
  Witness for C7: on the line "a foo.bar" with "." a separator, columns 3 to 6 hold
  the word "foo"; from column 4 the move right goes to column 7 (the start of "bar")
  and the move left from there returns to column 3.
\<close>

theorem wordStart_right_then_left_is_run_start_witness:
  "isMaximalRegularRun
     (lineClasses (new_WordCharacterClassifier (codeUnits ''.''))
        (getLineContent \<lparr> lines = [codeUnits ''a foo.bar''] \<rparr> 1)) 3 6 \<and>
   (3::nat) < 4 \<and> (4::nat) < 6 \<and>
   WordOperations_moveWordRight (new_WordCharacterClassifier (codeUnits ''.''))
     \<lparr> lines = [codeUnits ''a foo.bar''] \<rparr> \<lparr> lineNumber = 1, column = 4 \<rparr> WordStart =
     \<lparr> lineNumber = 1, column = 7 \<rparr> \<and>
   WordOperations_moveWordLeft (new_WordCharacterClassifier (codeUnits ''.''))
     \<lparr> lines = [codeUnits ''a foo.bar''] \<rparr> \<lparr> lineNumber = 1, column = 7 \<rparr> WordStart =
     \<lparr> lineNumber = 1, column = 3 \<rparr>"
proof -
  let ?k = "new_WordCharacterClassifier (codeUnits ''.'')"
  let ?m = "\<lparr> lines = [codeUnits ''a foo.bar''] \<rparr>"
  have cs: "lineClasses ?k (getLineContent ?m 1) =
      [Regular, Whitespace, Regular, Regular, Regular, WordSeparator, Regular, Regular, Regular]"
    by (simp add: model_defs)
  have run: "isMaximalRegularRun (lineClasses ?k (getLineContent ?m 1)) 3 6"
    unfolding cs by (simp add: isMaximalRegularRun_def classAt_def atLeastLessThan_upt)
  have right: "WordOperations_moveWordRight ?k ?m \<lparr> lineNumber = 1, column = 4 \<rparr> WordStart =
      \<lparr> lineNumber = 1, column = 7 \<rparr>"
    by (simp add: model_defs Let_def scanRight.simps)
  from wordStart_right_then_left_is_run_start [OF run, of 4] right run
  show ?thesis by simp
qed

subsection \<open>Deleting a non-empty selection\<close>

text \<open>
  Claim C5. For every non-empty selection, \<open>deleteWordLeft\<close> and
  \<open>deleteWordRight\<close> return the selection itself as the deletion range, for every
  navigation type and whatever the whitespace heuristics and the auto-closing
  configuration of the context are; the delete commands then return that range.
\<close>

theorem nonempty_selection_is_the_deletion_range:
  assumes "\<not> Selection_isEmpty (selection ctx)"
  shows "WordOperations_deleteWordLeft ctx nav = Some (Selection_range (selection ctx)) \<and>
         WordOperations_deleteWordRight ctx nav = Some (Selection_range (selection ctx)) \<and>
         DeleteWordLeftCommand_delete (modelledImports d) ctx nav =
           Selection_range (selection ctx) \<and>
         DeleteWordRightCommand_delete (modelledImports d) ctx nav =
           Selection_range (selection ctx)"
  using assms
  by (simp add: WordOperations_deleteWordLeft_def WordOperations_deleteWordRight_def
      DeleteWordLeftCommand_delete_def DeleteWordRightCommand_delete_def modelledImports_def
      Let_def)

text \<open>
  Witness for C5: on the buffer "()" with the pair auto-closed and whitespace
  heuristics on, the selection from (1,3) back to (1,2) is deleted as the range
  (1,2)-(1,3).
\<close>

theorem nonempty_selection_is_the_deletion_range_witness:
  "\<not> Selection_isEmpty (selection (autoClosedParensContext
        \<lparr> selection := \<lparr> selectionStartLineNumber = 1, selectionStartColumn = 3,
                          positionLineNumber = 1, positionColumn = 2 \<rparr>,
          whitespaceHeuristics := True \<rparr>)) \<and>
   WordOperations_deleteWordLeft (autoClosedParensContext
        \<lparr> selection := \<lparr> selectionStartLineNumber = 1, selectionStartColumn = 3,
                          positionLineNumber = 1, positionColumn = 2 \<rparr>,
          whitespaceHeuristics := True \<rparr>) WordStartFast =
     Some \<lparr> startLineNumber = 1, startColumn = 2, endLineNumber = 1, endColumn = 3 \<rparr> \<and>
   DeleteWordRightCommand_delete (modelledImports []) (autoClosedParensContext
        \<lparr> selection := \<lparr> selectionStartLineNumber = 1, selectionStartColumn = 3,
                          positionLineNumber = 1, positionColumn = 2 \<rparr>,
          whitespaceHeuristics := True \<rparr>) WordStartFast =
     \<lparr> startLineNumber = 1, startColumn = 2, endLineNumber = 1, endColumn = 3 \<rparr>"
proof -
  let ?ctx = "autoClosedParensContext
        \<lparr> selection := \<lparr> selectionStartLineNumber = 1, selectionStartColumn = 3,
                          positionLineNumber = 1, positionColumn = 2 \<rparr>,
          whitespaceHeuristics := True \<rparr>"
  have ne: "\<not> Selection_isEmpty (selection ?ctx)"
    by (simp add: autoClosedParensContext_def Selection_isEmpty_def)
  have rg: "Selection_range (selection ?ctx) =
      \<lparr> startLineNumber = 1, startColumn = 2, endLineNumber = 1, endColumn = 3 \<rparr>"
    by (simp add: autoClosedParensContext_def Selection_range_def)
  from nonempty_selection_is_the_deletion_range [OF ne, of WordStartFast "[]"] ne rg
  show ?thesis by simp
qed

subsection \<open>Deleting at a collapsed cursor\<close>





end
